theory Spec2Isabelle
  imports Main
begin

section \<open>JavaScript values\<close>

text \<open>
  The values that flow through the stored state, the score and the results of the embedded
  instance's queries: \<open>undefined\<close>, \<open>null\<close>, booleans and numbers. Numbers are modelled
  as integers (state codes and scores); \<open>NaN\<close> only arises as the result of converting
  \<open>undefined\<close> to a number and is the \<open>None\<close> of \<open>to_number\<close>.
\<close>

datatype jsval = JUndefined | JNull | JBool bool | JNum int

text \<open>
  The one exception that the code can raise: a property read or a call on \<open>undefined\<close> or
  \<open>null\<close>, or a call of a method that the object does not have. An operation that raises
  returns the error alone, without the state it leaves behind.
\<close>

datatype error = TypeError

text \<open>Truthiness, as tested by \<open>!v\<close> and \<open>if (v)\<close>.\<close>

fun truthy :: "jsval \<Rightarrow> bool" where
  "truthy JUndefined = False"
| "truthy JNull = False"
| "truthy (JBool b) = b"
| "truthy (JNum n) = (n \<noteq> 0)"

text \<open>\<open>typeof v === 'number'\<close>.\<close>

fun is_number :: "jsval \<Rightarrow> bool" where
  "is_number (JNum n) = True"
| "is_number v = False"

text \<open>\<open>v === null || v === undefined\<close>, the test behind \<open>?.\<close> and \<open>??\<close>.\<close>

fun nullish :: "jsval \<Rightarrow> bool" where
  "nullish JUndefined = True"
| "nullish JNull = True"
| "nullish v = False"

text \<open>The numeric conversion applied by the relational operators; \<open>None\<close> is \<open>NaN\<close>.\<close>

fun to_number :: "jsval \<Rightarrow> int option" where
  "to_number JUndefined = None"
| "to_number JNull = Some 0"
| "to_number (JBool b) = Some (if b then 1 else 0)"
| "to_number (JNum n) = Some n"

text \<open>\<open>a < b\<close>; \<open>a > b\<close> is \<open>js_less b a\<close>. A comparison with \<open>NaN\<close> is false.\<close>

definition js_less :: "jsval \<Rightarrow> jsval \<Rightarrow> bool" where
  "js_less a b =
     (case to_number a of
        None \<Rightarrow> False
      | Some x \<Rightarrow> (case to_number b of None \<Rightarrow> False | Some y \<Rightarrow> x < y))"

text \<open>The property key a number is converted to when it indexes an object: its decimal numeral.\<close>

definition digit_char :: "nat \<Rightarrow> char" where
  "digit_char d = ''0123456789'' ! (d mod 10)"

fun string_of_nat :: "nat \<Rightarrow> string" where
  "string_of_nat n =
     (if n < 10 then [digit_char n] else string_of_nat (n div 10) @ [digit_char (n mod 10)])"

declare string_of_nat.simps [simp del]

definition string_of_int :: "int \<Rightarrow> string" where
  "string_of_int i =
     (if i < 0 then CHR ''-'' # string_of_nat (nat (- i)) else string_of_nat (nat i))"

section \<open>Shared context: the state-code table\<close>

text \<open>
  \<open>Globals.set('states', {unstarted: 0, locked: 1, unlocking: 2, open: 3, opened: 4,
  completed: 5, cleared: 6})\<close> in the constructor of the main instance; the association list
  is \<open>Object.entries(states)\<close>.
\<close>

definition states :: "(string \<times> int) list" where
  "states =
     [(''unstarted'', 0), (''locked'', 1), (''unlocking'', 2), (''open'', 3),
      (''opened'', 4), (''completed'', 5), (''cleared'', 6)]"

text \<open>\<open>states[key]\<close>: a missing property reads as \<open>undefined\<close>.\<close>

definition states_at :: "string \<Rightarrow> jsval" where
  "states_at key = (case map_of states key of None \<Rightarrow> JUndefined | Some n \<Rightarrow> JNum n)"

section \<open>The embedded instance\<close>

text \<open>
  The capability surface of the runnable content object that the exercise probes. A method
  that the content type does not implement is \<open>None\<close> (or \<open>False\<close> for the methods whose
  result is not used); \<open>Some v\<close> is a method that returns \<open>v\<close>. The xAPI data are opaque and
  stand as a handle. Every object that the factory yields has \<open>on\<close>, \<open>trigger\<close>, \<open>attach\<close>
  and \<open>libraryInfo.machineName\<close>.
\<close>

record h5p_instance =
  inst_isTask :: jsval
  inst_getMaxScore :: "jsval option"
  inst_getScore :: "jsval option"
  inst_getAnswerGiven :: "jsval option"
  inst_showSolutions :: bool
  inst_resetTask :: bool
  inst_getXAPIData :: "nat option"
  inst_machineName :: string

text \<open>
  The field \<open>this.instance\<close>: \<open>undefined\<close> until the factory has produced an object; the
  factory of the hosting runtime yields an object or \<open>undefined\<close>, and \<open>null\<close> is the marker
  that \<open>initializeInstance\<close> tests for.
\<close>

datatype instance_ref = NoInstance | NullInstance | Instance h5p_instance

fun has_instance :: "instance_ref \<Rightarrow> bool" where
  "has_instance (Instance i) = True"
| "has_instance r = False"

section \<open>The exercise and its surroundings\<close>

text \<open>
  The descriptor \<open>params.contentType\<close>: the library string (\<open>None\<close> when it is missing or
  not a string) and the parameters that \<open>initializeInstance\<close> adapts for video and audio.
\<close>

record content_descr =
  library :: "string option"
  sources :: "string list"
  visuals_fit :: jsval
  playerMode :: string
  fitToWrapper :: jsval

datatype target = MainInstance | ExerciseInstance

text \<open>
  The listeners that the exercise registers: the closures of \<open>bubbleUp\<close> and \<open>bubbleDown\<close>
  (capturing the event name) and the xAPI listener that calls \<open>trackXAPI\<close>.
\<close>

datatype handler = UpRelay string | DownRelay string | ScoreTracker

text \<open>
  What the surroundings observe, in order: the two callbacks, the requests to the factory,
  every \<open>trigger\<close> call (with the value of the main instance's \<open>bubblingUpwards\<close> flag at the
  moment of the call) and the calls into the embedded instance and the browser.
\<close>

datatype effect =
    StateChanged jsval
  | ScoreChanged jsval
  | NewRunnable
  | Triggered target string bool
  | Attached
  | AudioHeightSet
  | SolutionsShown
  | TaskReset
  | IdleCallbackRequested
  | AnimationFrameRequested

text \<open>
  The fields of the exercise, the listener tables of the embedded instance and of the main
  instance, the main instance's \<open>bubblingUpwards\<close> flag, whether \<open>window.chrome\<close> is
  truthy, and the trace of effects.
  A missing event argument is \<open>None\<close>; \<open>Some v\<close> is an event whose \<open>getScore()\<close> is \<open>v\<close>.
\<close>

record exercise =
  contentType :: "content_descr option"
  state :: jsval
  score :: jsval
  inst :: instance_ref
  isAttached :: bool
  isShowingSolutions :: bool
  instListeners :: "(string \<times> handler) list"
  mainListeners :: "(string \<times> handler) list"
  bubblingUpwards :: bool
  windowChrome :: bool
  trace :: "effect list"

type_synonym event = "jsval option"

section \<open>Task detection and the state machine\<close>

text \<open>
  \<open>isInstanceTask(instance = {})\<close>: an \<open>undefined\<close> argument becomes the empty object, which
  has neither flag nor max-score query; \<open>null\<close> is falsy. The result is used as a condition
  only, so the truthy \<open>isTask\<close> value that the source returns is \<open>True\<close> here.
\<close>

fun isInstanceTask :: "instance_ref \<Rightarrow> bool" where
  "isInstanceTask NoInstance = False"
| "isInstanceTask NullInstance = False"
| "isInstanceTask (Instance i) =
     (if truthy (inst_isTask i) then True
      else (case inst_getMaxScore i of
              None \<Rightarrow> False
            | Some m \<Rightarrow> js_less (JNum 0) m))"

text \<open>The argument of \<open>setState\<close>: a string, or any other value.\<close>

datatype state_arg = Named string | Raw jsval

text \<open>
  \<open>Object.entries(states).find((entry) => entry[0] === state)[1]\<close>: indexing the
  \<open>undefined\<close> that \<open>find\<close> returns for an unknown name raises a \<open>TypeError\<close>.
\<close>

definition resolve_name :: "string \<Rightarrow> error + jsval" where
  "resolve_name name =
     (case find (\<lambda>entry. fst entry = name) states of
        None \<Rightarrow> Inl TypeError
      | Some entry \<Rightarrow> Inr (JNum (snd entry)))"

text \<open>The chain that computes \<open>newState\<close> from a numeric request; \<open>let newState;\<close> starts
  as \<open>undefined\<close> and no branch assigns it for any other code.\<close>

definition newState_of :: "int \<Rightarrow> bool \<Rightarrow> instance_ref \<Rightarrow> jsval" where
  "newState_of k force i =
     (if force then states_at (string_of_int k)
      else if JNum k = states_at ''unstarted'' then states_at ''unstarted''
      else if JNum k = states_at ''opened'' then
        (if isInstanceTask i then states_at ''opened'' else states_at ''cleared'')
      else if JNum k = states_at ''completed'' then states_at ''completed''
      else if JNum k = states_at ''cleared'' then states_at ''cleared''
      else JUndefined)"

definition setState :: "state_arg \<Rightarrow> bool \<Rightarrow> exercise \<Rightarrow> error + exercise" where
  "setState requested force ex =
     (case (case requested of Named name \<Rightarrow> resolve_name name | Raw v \<Rightarrow> Inr v) of
        Inl e \<Rightarrow> Inl e
      | Inr (JNum k) \<Rightarrow>
          (let newState = newState_of k force (inst ex)
           in if \<not> truthy (state ex) \<or> state ex \<noteq> newState
              then Inr (ex\<lparr>state := newState, trace := trace ex @ [StateChanged newState]\<rparr>)
              else Inr ex)
      | Inr v \<Rightarrow> Inr ex)"

text \<open>
  \<open>trackXAPI(event)\<close>. \<open>this.instance.getMaxScore()\<close> is an unguarded call: it raises when
  there is no instance or the instance has no such method.
\<close>

definition trackXAPI :: "event \<Rightarrow> exercise \<Rightarrow> error + exercise" where
  "trackXAPI event ex =
     (case event of
        None \<Rightarrow> Inr ex
      | Some JNull \<Rightarrow> Inr ex
      | Some s \<Rightarrow>
          (let ex1 = ex\<lparr>score := s\<rparr>
           in case inst ex1 of
                Instance i \<Rightarrow>
                  (case inst_getMaxScore i of
                     None \<Rightarrow> Inl TypeError
                   | Some m \<Rightarrow>
                       (case (if js_less (score ex1) m
                              then setState (Raw (states_at ''completed'')) False ex1
                              else setState (Raw (states_at ''cleared'')) False ex1) of
                          Inl e \<Rightarrow> Inl e
                        | Inr ex2 \<Rightarrow> Inr (ex2\<lparr>trace := trace ex2 @ [ScoreChanged (score ex2)]\<rparr>)))
              | r \<Rightarrow> Inl TypeError))"

section \<open>Queries and solutions\<close>

text \<open>\<open>return this.instance.getXAPIData?.()\<close>: the instance itself is read unguarded.\<close>

definition getXAPIData :: "exercise \<Rightarrow> error + nat option" where
  "getXAPIData ex =
     (case inst ex of
        Instance i \<Rightarrow> Inr (inst_getXAPIData i)
      | r \<Rightarrow> Inl TypeError)"

definition showSolutions :: "exercise \<Rightarrow> exercise" where
  "showSolutions ex =
     (let ex1 = (case inst ex of
                   Instance i \<Rightarrow>
                     (if inst_showSolutions i then ex\<lparr>trace := trace ex @ [SolutionsShown]\<rparr>
                      else ex)
                 | r \<Rightarrow> ex)
      in ex1\<lparr>isShowingSolutions := True\<rparr>)"

definition getAnswerGiven :: "exercise \<Rightarrow> jsval" where
  "getAnswerGiven ex =
     (case inst ex of
        Instance i \<Rightarrow>
          (case inst_getAnswerGiven i of
             None \<Rightarrow> JBool False
           | Some v \<Rightarrow> (if nullish v then JBool False else v))
      | r \<Rightarrow> JBool False)"

definition getScore :: "exercise \<Rightarrow> jsval" where
  "getScore ex =
     (let score = (case inst ex of
                     Instance i \<Rightarrow> (case inst_getScore i of None \<Rightarrow> JUndefined | Some v \<Rightarrow> v)
                   | r \<Rightarrow> JUndefined)
      in if is_number score then score else JNum 0)"

definition getMaxScore :: "exercise \<Rightarrow> jsval" where
  "getMaxScore ex =
     (let maxScore = (case inst ex of
                        Instance i \<Rightarrow>
                          (case inst_getMaxScore i of None \<Rightarrow> JUndefined | Some v \<Rightarrow> v)
                      | r \<Rightarrow> JUndefined)
      in if is_number maxScore then maxScore else JNum 0)"

section \<open>Event bubbling\<close>

text \<open>
  The only calls are \<open>bubbleUp(this.instance, 'resize', mainInstance)\<close> and
  \<open>bubbleDown(mainInstance, 'resize', [this.instance])\<close>: the upward relay listens on the
  embedded instance and triggers on the main instance, the downward relay the other way
  round. The event name stays a parameter, as in the source.
\<close>

definition bubbleUp :: "string \<Rightarrow> exercise \<Rightarrow> exercise" where
  "bubbleUp eventName ex = ex\<lparr>instListeners := instListeners ex @ [(eventName, UpRelay eventName)]\<rparr>"

definition bubbleDown :: "string \<Rightarrow> exercise \<Rightarrow> exercise" where
  "bubbleDown eventName ex = ex\<lparr>mainListeners := mainListeners ex @ [(eventName, DownRelay eventName)]\<rparr>"

text \<open>
  Modelled from the spec: the event dispatcher of the hosting runtime (\<open>on(eventName,
  handler)\<close> and \<open>trigger(eventName, payload)\<close>), which is not part of the sources.
  \<open>trigger\<close> calls, synchronously and in the order of registration, every listener
  registered on that object under that name.
\<close>

definition listeners_for :: "target \<Rightarrow> string \<Rightarrow> exercise \<Rightarrow> handler list" where
  "listeners_for t eventName ex =
     map snd (filter (\<lambda>l. fst l = eventName)
       (case t of MainInstance \<Rightarrow> mainListeners ex | ExerciseInstance \<Rightarrow> instListeners ex))"

definition fire :: "target \<Rightarrow> string \<Rightarrow> exercise \<Rightarrow> exercise" where
  "fire t eventName ex = ex\<lparr>trace := trace ex @ [Triggered t eventName (bubblingUpwards ex)]\<rparr>"

text \<open>
  Running the listeners of one \<open>trigger\<close> call. The bodies are those of the closures in
  \<open>bubbleUp\<close> and \<open>bubbleDown\<close> and of the xAPI listener; each nested \<open>trigger\<close> call takes
  one unit of fuel, and \<open>None\<close> is a relay that has not returned within the fuel given.
  An exception leaves through every caller, so the flag is not reset after it.
\<close>

fun dispatch :: "nat \<Rightarrow> handler list \<Rightarrow> event \<Rightarrow> exercise \<Rightarrow> (error + exercise) option" where
  "dispatch fuel [] event ex = Some (Inr ex)"
| "dispatch 0 (UpRelay eventName # hs) event ex = None"
| "dispatch (Suc n) (UpRelay eventName # hs) event ex =
     (let ex1 = ex\<lparr>bubblingUpwards := True\<rparr>
      in case dispatch n (listeners_for MainInstance eventName ex1) event
                (fire MainInstance eventName ex1) of
           None \<Rightarrow> None
         | Some (Inl e) \<Rightarrow> Some (Inl e)
         | Some (Inr ex2) \<Rightarrow> dispatch (Suc n) hs event (ex2\<lparr>bubblingUpwards := False\<rparr>))"
| "dispatch fuel (DownRelay eventName # hs) event ex =
     (if bubblingUpwards ex then dispatch fuel hs event ex
      else if isAttached ex then
        (case fuel of
           0 \<Rightarrow> None
         | Suc n \<Rightarrow>
             (case dispatch n (listeners_for ExerciseInstance eventName ex) event
                     (fire ExerciseInstance eventName ex) of
                None \<Rightarrow> None
              | Some (Inl e) \<Rightarrow> Some (Inl e)
              | Some (Inr ex1) \<Rightarrow> dispatch fuel hs event ex1))
      else dispatch fuel hs event ex)"
| "dispatch fuel (ScoreTracker # hs) event ex =
     (case trackXAPI event ex of
        Inl e \<Rightarrow> Some (Inl e)
      | Inr ex1 \<Rightarrow> dispatch fuel hs event ex1)"

definition trigger :: "nat \<Rightarrow> target \<Rightarrow> string \<Rightarrow> event \<Rightarrow> exercise \<Rightarrow> (error + exercise) option" where
  "trigger fuel t eventName event ex =
     dispatch fuel (listeners_for t eventName ex) event (fire t eventName ex)"

section \<open>Instantiation, attachment, viewing and reset\<close>

text \<open>\<open>this.params.contentType?.library?.split?.(' ')[0]\<close>.\<close>

definition machineName_of :: "content_descr option \<Rightarrow> string option" where
  "machineName_of ct =
     (case ct of
        None \<Rightarrow> None
      | Some c \<Rightarrow>
          (case library c of
             None \<Rightarrow> None
           | Some l \<Rightarrow> Some (takeWhile (\<lambda>ch. ch \<noteq> CHR '' '') l)))"

definition adapt_contentType :: "content_descr option \<Rightarrow> content_descr option" where
  "adapt_contentType ct =
     (case ct of
        None \<Rightarrow> None
      | Some c \<Rightarrow>
          (let c1 = (if machineName_of ct = Some ''H5P.Video''
                     then c\<lparr>visuals_fit :=
                            (case sources c of
                               [] \<Rightarrow> JNum 0
                             | mime # rest \<Rightarrow>
                                 JBool (mime = ''video/mp4'' \<or> mime = ''video/webm'' \<or>
                                        mime = ''video/ogg''))\<rparr>
                     else c);
               c2 = (if machineName_of ct = Some ''H5P.Audio''
                     then (if playerMode c1 = ''full'' then c1\<lparr>fitToWrapper := JBool True\<rparr> else c1)
                     else c1)
           in Some c2))"

text \<open>
  \<open>initializeInstance()\<close>; \<open>newRunnable\<close> is the factory of the hosting runtime, applied to
  the adapted descriptor. Each request to it is recorded in the trace.
\<close>

definition initializeInstance :: "(content_descr option \<Rightarrow> instance_ref) \<Rightarrow> exercise \<Rightarrow> exercise" where
  "initializeInstance newRunnable ex =
     (if inst ex = NullInstance \<or> has_instance (inst ex) then ex
      else
        (let ex1 = ex\<lparr>contentType := adapt_contentType (contentType ex)\<rparr>;
             ex2 = (if \<not> has_instance (inst ex1)
                    then ex1\<lparr>inst := newRunnable (contentType ex1),
                             trace := trace ex1 @ [NewRunnable]\<rparr>
                    else ex1)
         in if \<not> has_instance (inst ex2) then ex2
            else
              (let ex3 = bubbleUp ''resize'' ex2;
                   ex4 = bubbleDown ''resize'' ex3
               in if isInstanceTask (inst ex4)
                  then ex4\<lparr>instListeners := instListeners ex4 @ [(''xAPI'', ScoreTracker)]\<rparr>
                  else ex4)))"

text \<open>\<open>attachInstance()\<close>: \<open>this.instance.attach(...)\<close> is an unguarded call.\<close>

definition attachInstance :: "exercise \<Rightarrow> error + exercise" where
  "attachInstance ex =
     (if isAttached ex then Inr ex
      else
        (case inst ex of
           Instance i \<Rightarrow>
             (let ex1 = ex\<lparr>trace := trace ex @ [Attached]\<rparr>;
                  ex2 = (if inst_machineName i = ''H5P.Audio''
                         then (if windowChrome ex1
                               then ex1\<lparr>trace := trace ex1 @ [AudioHeightSet]\<rparr>
                               else ex1)
                         else ex1)
              in Inr (ex2\<lparr>isAttached := True\<rparr>))
         | r \<Rightarrow> Inl TypeError))"

text \<open>
  \<open>handleViewed()\<close> and \<open>reset()\<close>. The bodies of the animation-frame and idle callbacks run
  in a later turn; the model records the requests only.
\<close>

definition handleViewed :: "exercise \<Rightarrow> error + exercise" where
  "handleViewed ex =
     (case attachInstance ex of
        Inl e \<Rightarrow> Inl e
      | Inr ex1 \<Rightarrow>
          (let ex2 = (if isShowingSolutions ex1 then showSolutions ex1 else ex1)
           in case setState (Named ''opened'') False ex2 of
                Inl e \<Rightarrow> Inl e
              | Inr ex3 \<Rightarrow> Inr (ex3\<lparr>trace := trace ex3 @ [AnimationFrameRequested]\<rparr>)))"

definition reset :: "exercise \<Rightarrow> error + exercise" where
  "reset ex =
     (case setState (Raw (states_at ''unstarted'')) False (ex\<lparr>score := JNum 0\<rparr>) of
        Inl e \<Rightarrow> Inl e
      | Inr ex1 \<Rightarrow>
          (let ex2 = (if isAttached ex1
                      then (case inst ex1 of
                              Instance i \<Rightarrow>
                                (if inst_resetTask i then ex1\<lparr>trace := trace ex1 @ [TaskReset]\<rparr>
                                 else ex1)
                            | r \<Rightarrow> ex1)
                      else ex1);
               ex3 = ex2\<lparr>trace := trace ex2 @ [IdleCallbackRequested]\<rparr>
           in Inr (ex3\<lparr>isShowingSolutions := False\<rparr>)))"

text \<open>
  The constructor: the fields start \<open>undefined\<close> (falsy for the two flags), the state is
  set through \<open>setState\<close>, then the instance is initialized. The callbacks are the
  \<open>StateChanged\<close> and \<open>ScoreChanged\<close> entries of the trace; the container element
  has no part in what follows.
\<close>

definition new_exercise :: "content_descr option \<Rightarrow> bool \<Rightarrow> exercise" where
  "new_exercise ct chrome =
     \<lparr>contentType = ct, state = JUndefined, score = JUndefined, inst = NoInstance,
      isAttached = False, isShowingSolutions = False, instListeners = [], mainListeners = [],
      bubblingUpwards = False, windowChrome = chrome, trace = []\<rparr>"

definition constructor ::
  "(content_descr option \<Rightarrow> instance_ref) \<Rightarrow> content_descr option \<Rightarrow> bool \<Rightarrow> error + exercise" where
  "constructor newRunnable ct chrome =
     (case setState (Raw (states_at ''unstarted'')) False (new_exercise ct chrome) of
        Inl e \<Rightarrow> Inl e
      | Inr ex \<Rightarrow> Inr (initializeInstance newRunnable ex))"

section \<open>Example stages\<close>

text \<open>
  Three embedded instances: a scored question with a maximum of five points, a text without
  any optional capability, and a content type that declares itself a task by its flag and
  has no max-score query.
\<close>

definition quiz :: h5p_instance where
  "quiz =
     \<lparr>inst_isTask = JUndefined, inst_getMaxScore = Some (JNum 5), inst_getScore = Some (JNum 0),
      inst_getAnswerGiven = Some (JBool False), inst_showSolutions = True, inst_resetTask = True,
      inst_getXAPIData = Some 0, inst_machineName = ''H5P.MultiChoice''\<rparr>"

definition text_page :: h5p_instance where
  "text_page =
     \<lparr>inst_isTask = JUndefined, inst_getMaxScore = None, inst_getScore = None,
      inst_getAnswerGiven = None, inst_showSolutions = False, inst_resetTask = False,
      inst_getXAPIData = None, inst_machineName = ''H5P.AdvancedText''\<rparr>"

definition flagged_task :: h5p_instance where
  "flagged_task = text_page\<lparr>inst_isTask := JBool True, inst_machineName := ''H5P.Flagged''\<rparr>"

text \<open>
  The stage that the constructor returns when the factory yields \<open>r\<close> (the constructor
  raises for no argument, so the second branch is never taken).
\<close>

definition built :: "instance_ref \<Rightarrow> exercise" where
  "built r =
     (case constructor (\<lambda>c. r) None False of
        Inr ex \<Rightarrow> ex
      | Inl e \<Rightarrow> new_exercise None False)"

text \<open>The quiz stage after \<open>setState('opened')\<close>, and after \<open>attachInstance()\<close>.\<close>

definition opened_quiz :: exercise where
  "opened_quiz =
     (built (Instance quiz))\<lparr>state := JNum 4,
        trace := trace (built (Instance quiz)) @ [StateChanged (JNum 4)]\<rparr>"

definition attached_quiz :: exercise where
  "attached_quiz =
     (built (Instance quiz))\<lparr>isAttached := True,
        trace := trace (built (Instance quiz)) @ [Attached]\<rparr>"

definition flagged_stage :: exercise where
  "flagged_stage = built (Instance flagged_task)"

section \<open>Basic facts\<close>

lemma states_at_values [simp]:
  "states_at ''unstarted'' = JNum 0" "states_at ''opened'' = JNum 4"
  "states_at ''completed'' = JNum 5" "states_at ''cleared'' = JNum 6"
  by (simp_all add: states_at_def states_def)

lemma resolve_name_values [simp]:
  "resolve_name ''unstarted'' = Inr (JNum 0)" "resolve_name ''opened'' = Inr (JNum 4)"
  "resolve_name ''completed'' = Inr (JNum 5)" "resolve_name ''cleared'' = Inr (JNum 6)"
  by (simp_all add: resolve_name_def states_def)

lemma js_less_numbers [simp]: "js_less (JNum a) (JNum b) = (a < b)"
  by (simp add: js_less_def)

text \<open>
  No numeral is a key of the table: a numeral ends in a digit, a state name in a letter. So
  \<open>states[state]\<close> is \<open>undefined\<close> for every number.
\<close>

lemma digit_char_is_digit: "digit_char d \<in> set ''0123456789''"
  unfolding digit_char_def by (rule nth_mem) simp

lemma string_of_nat_not_empty: "string_of_nat n \<noteq> []"
  by (subst string_of_nat.simps) simp

lemma last_string_of_nat: "last (string_of_nat n) = digit_char (n mod 10)"
  by (subst string_of_nat.simps) simp

lemma last_string_of_int: "last (string_of_int k) \<in> set ''0123456789''"
  by (simp add: string_of_int_def string_of_nat_not_empty last_string_of_nat
      digit_char_is_digit del: set_simps)

lemma state_names_end_in_letters:
  "key \<in> fst ` set states \<Longrightarrow> last key \<notin> set ''0123456789''"
  by (auto simp: states_def)

lemma states_at_number: "states_at (string_of_int k) = JUndefined"
proof -
  have "string_of_int k \<notin> fst ` set states"
    using last_string_of_int [of k] state_names_end_in_letters by blast
  then have "map_of states (string_of_int k) = None"
    by (simp add: map_of_eq_None_iff)
  then show ?thesis by (simp add: states_at_def)
qed

lemma newState_of_forced: "newState_of k True i = JUndefined"
  by (simp add: newState_of_def states_at_number)

lemma newState_of_unforced:
  "newState_of k False i =
     (if k = 0 then JNum 0
      else if k = 4 then (if isInstanceTask i then JNum 4 else JNum 6)
      else if k = 5 then JNum 5
      else if k = 6 then JNum 6
      else JUndefined)"
  by (simp add: newState_of_def)

lemma setState_number:
  "setState (Raw (JNum k)) force ex =
     Inr (if \<not> truthy (state ex) \<or> state ex \<noteq> newState_of k force (inst ex)
          then ex\<lparr>state := newState_of k force (inst ex),
                  trace := trace ex @ [StateChanged (newState_of k force (inst ex))]\<rparr>
          else ex)"
  by (auto simp: setState_def Let_def)

lemma setState_named:
  "resolve_name name = Inr (JNum k) \<Longrightarrow>
   setState (Named name) force ex = setState (Raw (JNum k)) force ex"
  by (simp add: setState_def)

text \<open>A request that is neither a string nor a number leaves everything as it is.\<close>

lemma setState_not_number: "\<not> is_number v \<Longrightarrow> setState (Raw v) force ex = Inr ex"
  by (cases v) (simp_all add: setState_def)

lemma constructor_result:
  "constructor newRunnable ct chrome =
     Inr (initializeInstance newRunnable
            ((new_exercise ct chrome)\<lparr>state := JNum 0, trace := [StateChanged (JNum 0)]\<rparr>))"
  by (simp add: constructor_def setState_number newState_of_unforced new_exercise_def)

lemma initializeInstance_unset:
  "inst ex = NoInstance \<Longrightarrow>
   initializeInstance newRunnable ex =
     (let ex2 = ex\<lparr>contentType := adapt_contentType (contentType ex),
                    inst := newRunnable (adapt_contentType (contentType ex)),
                    trace := trace ex @ [NewRunnable]\<rparr>
      in if \<not> has_instance (inst ex2) then ex2
         else ex2\<lparr>instListeners := instListeners ex @ [(''resize'', UpRelay ''resize'')] @
                       (if isInstanceTask (inst ex2) then [(''xAPI'', ScoreTracker)] else []),
                   mainListeners := mainListeners ex @ [(''resize'', DownRelay ''resize'')]\<rparr>)"
  by (simp add: initializeInstance_def Let_def bubbleUp_def bubbleDown_def)

text \<open>Once there is an instance (or the \<open>null\<close> marker), \<open>initializeInstance\<close> does nothing.\<close>

lemma initializeInstance_done:
  "inst ex = NullInstance \<or> has_instance (inst ex) \<Longrightarrow> initializeInstance newRunnable ex = ex"
  by (simp add: initializeInstance_def)

lemma initializeInstance_once_instantiated:
  assumes "has_instance (inst (initializeInstance newRunnable ex))"
  shows "initializeInstance newRunnable' (initializeInstance newRunnable ex) =
         initializeInstance newRunnable ex"
  using assms by (rule initializeInstance_done [OF disjI2])

lemma built_no_instance:
  "built NoInstance =
     (new_exercise None False)\<lparr>state := JNum 0, trace := [StateChanged (JNum 0), NewRunnable]\<rparr>"
  by (simp add: built_def constructor_result initializeInstance_unset new_exercise_def
      adapt_contentType_def)

lemma built_instance:
  "built (Instance i) =
     (new_exercise None False)\<lparr>state := JNum 0, inst := Instance i,
        instListeners := (''resize'', UpRelay ''resize'') #
          (if isInstanceTask (Instance i) then [(''xAPI'', ScoreTracker)] else []),
        mainListeners := [(''resize'', DownRelay ''resize'')],
        trace := [StateChanged (JNum 0), NewRunnable]\<rparr>"
  by (simp add: built_def constructor_result initializeInstance_unset new_exercise_def
      adapt_contentType_def Let_def)

lemma attachInstance_quiz: "attachInstance (built (Instance quiz)) = Inr attached_quiz"
  by (simp add: attachInstance_def attached_quiz_def built_instance new_exercise_def quiz_def)

text \<open>The stage that the constructor has wired: one upward and one downward relay.\<close>

lemma constructor_wires:
  assumes "constructor newRunnable ct chrome = Inr ex" and "has_instance (inst ex)"
  shows "listeners_for ExerciseInstance ''resize'' ex = [UpRelay ''resize''] \<and>
         listeners_for MainInstance ''resize'' ex = [DownRelay ''resize''] \<and>
         \<not> bubblingUpwards ex \<and> \<not> isAttached ex"
  using assms
  by (auto simp: constructor_result initializeInstance_unset new_exercise_def Let_def
      listeners_for_def split: if_splits)

lemma listeners_for_flag [simp]:
  "listeners_for t e (ex\<lparr>bubblingUpwards := b\<rparr>) = listeners_for t e ex"
  by (cases t) (simp_all add: listeners_for_def)

lemma listeners_for_trace [simp]:
  "listeners_for t e (ex\<lparr>trace := es\<rparr>) = listeners_for t e ex"
  by (cases t) (simp_all add: listeners_for_def)

lemma listeners_for_fire [simp]: "listeners_for t e (fire t' e' ex) = listeners_for t e ex"
  by (simp add: fire_def)

text \<open>While the flag is set, the downward relay returns at once and needs no fuel.\<close>

lemma down_relay_blocked:
  "bubblingUpwards ex \<Longrightarrow> dispatch fuel [DownRelay e] event ex = Some (Inr ex)"
  by simp

lemma quiz_stage_wired:
  "listeners_for ExerciseInstance ''resize'' (built (Instance quiz)) = [UpRelay ''resize'']"
  "listeners_for MainInstance ''resize'' (built (Instance quiz)) = [DownRelay ''resize'']"
  "listeners_for ExerciseInstance ''resize'' attached_quiz = [UpRelay ''resize'']"
  "listeners_for MainInstance ''resize'' attached_quiz = [DownRelay ''resize'']"
  by (simp_all add: attached_quiz_def built_instance new_exercise_def listeners_for_def)

lemma quiz_stage_fields:
  "\<not> bubblingUpwards (built (Instance quiz))" "\<not> isAttached (built (Instance quiz))"
  "\<not> bubblingUpwards attached_quiz" "isAttached attached_quiz"
  "trace (built (Instance quiz)) = [StateChanged (JNum 0), NewRunnable]"
  "trace attached_quiz = [StateChanged (JNum 0), NewRunnable, Attached]"
  by (simp_all add: attached_quiz_def built_instance new_exercise_def)

section \<open>The state machine\<close>

lemma initializeInstance_state [simp]: "state (initializeInstance newRunnable ex) = state ex"
  by (simp add: initializeInstance_def Let_def bubbleUp_def bubbleDown_def)

text \<open>
  On any stage, \<open>setState('opened')\<close> stores \<open>opened\<close> (4) for a task and \<open>cleared\<close> (6)
  otherwise; the callback is invoked, once and with that code, when the stored state
  differed from it, and a repeated call invokes none.
\<close>

lemma setState_opened_any_stage:
  fixes ex :: exercise
  defines "r \<equiv> if isInstanceTask (inst ex) then JNum 4 else JNum 6"
  shows "\<exists>ex1. setState (Named ''opened'') False ex = Inr ex1 \<and> state ex1 = r \<and>
           inst ex1 = inst ex \<and>
           (state ex \<noteq> r \<longrightarrow> trace ex1 = trace ex @ [StateChanged r]) \<and>
           (state ex = r \<longrightarrow> trace ex1 = trace ex) \<and>
           setState (Named ''opened'') False ex1 = Inr ex1"
proof -
  have call: "setState (Named ''opened'') False ex' = setState (Raw (JNum 4)) False ex'" for ex'
    by (simp add: setState_named)
  have new: "newState_of 4 False (inst ex) = r"
    by (simp add: newState_of_unforced r_def)
  have number: "r = JNum 4 \<or> r = JNum 6"
    by (simp add: r_def)
  show ?thesis
  proof (cases "state ex = r")
    case True
    with number have "truthy (state ex)" by auto
    with True new have "setState (Raw (JNum 4)) False ex = Inr ex"
      by (simp add: setState_number)
    with True show ?thesis by (simp add: call)
  next
    case False
    let ?ex1 = "ex\<lparr>state := r, trace := trace ex @ [StateChanged r]\<rparr>"
    from False new have first: "setState (Raw (JNum 4)) False ex = Inr ?ex1"
      by (simp add: setState_number)
    from number new have "setState (Raw (JNum 4)) False ?ex1 = Inr ?ex1"
      by (auto simp: setState_number)
    with first False show ?thesis by (simp add: call)
  qed
qed

text \<open>
  C1. On the stage that the constructor returns, whatever the descriptor and the factory,
  \<open>setState('opened')\<close> stores \<open>opened\<close> (4) when the embedded instance is a task and
  \<open>cleared\<close> (6) when it is not (or when there is none); \<open>onStateChanged\<close> is invoked
  exactly once, with that code; and the immediately repeated call returns the stage as it
  is, with no further callback.
\<close>

theorem setState_opened:
  "\<exists>ex ex1.
     constructor newRunnable ct chrome = Inr ex \<and>
     setState (Named ''opened'') False ex = Inr ex1 \<and>
     state ex1 = (if isInstanceTask (inst ex) then JNum 4 else JNum 6) \<and>
     trace ex1 =
       trace ex @ [StateChanged (if isInstanceTask (inst ex) then JNum 4 else JNum 6)] \<and>
     setState (Named ''opened'') False ex1 = Inr ex1"
proof -
  obtain ex where built: "constructor newRunnable ct chrome = Inr ex" and unstarted: "state ex = JNum 0"
    by (simp add: constructor_result)
  from unstarted have differs: "state ex \<noteq> (if isInstanceTask (inst ex) then JNum 4 else JNum 6)"
    by simp
  from setState_opened_any_stage [of ex] differs
  obtain ex1 where "setState (Named ''opened'') False ex = Inr ex1"
    and "state ex1 = (if isInstanceTask (inst ex) then JNum 4 else JNum 6)"
    and "trace ex1 =
       trace ex @ [StateChanged (if isInstanceTask (inst ex) then JNum 4 else JNum 6)]"
    and "setState (Named ''opened'') False ex1 = Inr ex1"
    by blast
  with built show ?thesis by blast
qed

theorem setState_opened_witness:
  "(\<exists>ex1. setState (Named ''opened'') False (built (Instance quiz)) = Inr ex1 \<and>
      state ex1 = JNum 4 \<and>
      trace ex1 = [StateChanged (JNum 0), NewRunnable, StateChanged (JNum 4)] \<and>
      setState (Named ''opened'') False ex1 = Inr ex1) \<and>
   (\<exists>ex1. setState (Named ''opened'') False (built (Instance text_page)) = Inr ex1 \<and>
      state ex1 = JNum 6 \<and>
      trace ex1 = [StateChanged (JNum 0), NewRunnable, StateChanged (JNum 6)] \<and>
      setState (Named ''opened'') False ex1 = Inr ex1)"
proof -
  have q: "constructor (\<lambda>c. Instance quiz) None False = Inr (built (Instance quiz))"
    by (simp add: built_def constructor_result)
  have t: "constructor (\<lambda>c. Instance text_page) None False = Inr (built (Instance text_page))"
    by (simp add: built_def constructor_result)
  have qf: "isInstanceTask (inst (built (Instance quiz)))"
    "trace (built (Instance quiz)) = [StateChanged (JNum 0), NewRunnable]"
    by (simp_all add: built_instance new_exercise_def quiz_def)
  have tf: "\<not> isInstanceTask (inst (built (Instance text_page)))"
    "trace (built (Instance text_page)) = [StateChanged (JNum 0), NewRunnable]"
    by (simp_all add: built_instance new_exercise_def text_page_def)
  have "\<exists>ex1. setState (Named ''opened'') False (built (Instance quiz)) = Inr ex1 \<and>
      state ex1 = JNum 4 \<and>
      trace ex1 = [StateChanged (JNum 0), NewRunnable, StateChanged (JNum 4)] \<and>
      setState (Named ''opened'') False ex1 = Inr ex1"
    using setState_opened [of "\<lambda>c. Instance quiz" None False] unfolding q
    by (simp add: qf)
  moreover have "\<exists>ex1. setState (Named ''opened'') False (built (Instance text_page)) = Inr ex1 \<and>
      state ex1 = JNum 6 \<and>
      trace ex1 = [StateChanged (JNum 0), NewRunnable, StateChanged (JNum 6)] \<and>
      setState (Named ''opened'') False ex1 = Inr ex1"
    using setState_opened [of "\<lambda>c. Instance text_page" None False] unfolding t
    by (simp add: tf)
  ultimately show ?thesis by blast
qed

text \<open>
  C2: what the code does on a scoring event. A missing event and an event whose score is
  \<open>null\<close> leave the stage as it is, with no callback. For an event with score \<open>s\<close> on an
  instance whose max-score query returns \<open>m\<close>, the score is recorded, \<open>completed\<close> (5) is
  stored if \<open>s < m\<close> and \<open>cleared\<close> (6) otherwise (with \<open>onStateChanged\<close> when the stored
  state changes), and \<open>onScoreChanged\<close> is invoked with \<open>s\<close>. On an instance without a
  max-score query, as a task by its flag alone may be, the unguarded
  \<open>this.instance.getMaxScore()\<close> raises a \<open>TypeError\<close>, and neither callback is invoked,
  although the exercise's own \<open>getMaxScore\<close> answers 0 for that stage.
\<close>

theorem trackXAPI_score:
  assumes "inst ex = Instance i"
  shows "trackXAPI None ex = Inr ex \<and> trackXAPI (Some JNull) ex = Inr ex \<and>
         trackXAPI (Some (JNum s)) ex =
           (case inst_getMaxScore i of
              None \<Rightarrow> Inl TypeError
            | Some m \<Rightarrow>
                Inr (if js_less (JNum s) m
                     then (if state ex = JNum 5
                           then ex\<lparr>score := JNum s, trace := trace ex @ [ScoreChanged (JNum s)]\<rparr>
                           else ex\<lparr>score := JNum s, state := JNum 5,
                                   trace := trace ex @
                                     [StateChanged (JNum 5), ScoreChanged (JNum s)]\<rparr>)
                     else (if state ex = JNum 6
                           then ex\<lparr>score := JNum s, trace := trace ex @ [ScoreChanged (JNum s)]\<rparr>
                           else ex\<lparr>score := JNum s, state := JNum 6,
                                   trace := trace ex @
                                     [StateChanged (JNum 6), ScoreChanged (JNum s)]\<rparr>))) \<and>
         (inst_getMaxScore i = None \<longrightarrow> getMaxScore ex = JNum 0)"
proof (cases "inst_getMaxScore i")
  case None
  with assms show ?thesis
    by (simp add: trackXAPI_def getMaxScore_def)
next
  case (Some m)
  with assms show ?thesis
    by (cases "state ex")
      (auto simp: trackXAPI_def setState_number newState_of_unforced Let_def)
qed

theorem trackXAPI_score_witness:
  "isInstanceTask (inst flagged_stage) \<and>
   trackXAPI (Some (JNum 3)) flagged_stage = Inl TypeError \<and>
   getMaxScore flagged_stage = JNum 0 \<and>
   trackXAPI None opened_quiz = Inr opened_quiz \<and>
   trackXAPI (Some JNull) opened_quiz = Inr opened_quiz \<and>
   trackXAPI (Some (JNum 3)) opened_quiz =
     Inr (opened_quiz\<lparr>score := JNum 3, state := JNum 5,
            trace := trace opened_quiz @ [StateChanged (JNum 5), ScoreChanged (JNum 3)]\<rparr>) \<and>
   trackXAPI (Some (JNum 5)) opened_quiz =
     Inr (opened_quiz\<lparr>score := JNum 5, state := JNum 6,
            trace := trace opened_quiz @ [StateChanged (JNum 6), ScoreChanged (JNum 5)]\<rparr>)"
proof -
  have f: "inst flagged_stage = Instance flagged_task"
    by (simp add: flagged_stage_def built_instance new_exercise_def)
  have fm: "inst_getMaxScore flagged_task = None" "truthy (inst_isTask flagged_task)"
    by (simp_all add: flagged_task_def text_page_def)
  have i: "inst opened_quiz = Instance quiz"
    by (simp add: opened_quiz_def built_instance new_exercise_def)
  have m: "inst_getMaxScore quiz = Some (JNum 5)"
    by (simp add: quiz_def)
  have st: "state opened_quiz = JNum 4"
    by (simp add: opened_quiz_def)
  show ?thesis
    using trackXAPI_score [OF f, of 3] trackXAPI_score [OF i, of 3] trackXAPI_score [OF i, of 5]
    by (simp add: f fm m st)
qed

text \<open>
  C3: what the guard of \<open>setState\<close> does. For every numeric request, by number or by
  name, forced or not, and any stored state, the new state is stored and \<open>onStateChanged\<close>
  is invoked, once and with the new state, if and only if the stored state is falsy or
  differs from the new state. The falsy test \<open>!this.state\<close> holds for the stored code 0:
  on an unstarted stage a request that resolves to \<open>unstarted\<close> (0) invokes the callback
  although the state does not change.
\<close>

theorem setState_callback_condition:
  assumes "requested = Raw (JNum k) \<or>
         (\<exists>name. requested = Named name \<and> resolve_name name = Inr (JNum k))"
  shows "\<exists>ex1. setState requested force ex = Inr ex1 \<and>
           state ex1 = newState_of k force (inst ex) \<and>
           (if \<not> truthy (state ex) \<or> state ex \<noteq> newState_of k force (inst ex)
            then trace ex1 = trace ex @ [StateChanged (newState_of k force (inst ex))]
            else trace ex1 = trace ex) \<and>
           (state ex = JNum 0 \<and> newState_of k force (inst ex) = JNum 0 \<longrightarrow>
              trace ex1 = trace ex @ [StateChanged (JNum 0)])"
proof -
  have eq: "setState requested force ex = setState (Raw (JNum k)) force ex"
    using assms by (auto simp: setState_named)
  show ?thesis
    unfolding eq by (auto simp: setState_number)
qed

theorem setState_callback_condition_witness:
  "state (built NoInstance) = JNum 0 \<and>
   newState_of 0 False (inst (built NoInstance)) = JNum 0 \<and>
   (\<exists>ex1. setState (Raw (JNum 0)) False (built NoInstance) = Inr ex1 \<and> state ex1 = JNum 0 \<and>
      trace ex1 = trace (built NoInstance) @ [StateChanged (JNum 0)])"
  using setState_callback_condition [of "Raw (JNum 0)" 0 False "built NoInstance"]
  by (simp add: built_no_instance new_exercise_def newState_of_unforced)

text \<open>
  C4: what the code does with a request it does not accept. An unforced numeric code other
  than 0, 4, 5 and 6 is not a silent no-op: it overwrites the stored state with
  \<open>undefined\<close> and invokes \<open>onStateChanged\<close> with \<open>undefined\<close>. A name that is not in the
  table raises a \<open>TypeError\<close>. (A value that is neither a string nor a number is the
  silent no-op of the claim: \<open>setState_not_number\<close>.)
\<close>

theorem setState_rejected_request:
  "(k \<noteq> 0 \<and> k \<noteq> 4 \<and> k \<noteq> 5 \<and> k \<noteq> 6 \<longrightarrow>
      setState (Raw (JNum k)) False ex =
        Inr (ex\<lparr>state := JUndefined, trace := trace ex @ [StateChanged JUndefined]\<rparr>)) \<and>
   (name \<notin> fst ` set states \<longrightarrow> setState (Named name) force ex = Inl TypeError)"
proof (intro conjI impI)
  assume "k \<noteq> 0 \<and> k \<noteq> 4 \<and> k \<noteq> 5 \<and> k \<noteq> 6"
  then have "newState_of k False (inst ex) = JUndefined"
    by (simp add: newState_of_unforced)
  moreover have "\<not> truthy (state ex) \<or> state ex \<noteq> JUndefined"
    by (cases "state ex") simp_all
  ultimately show "setState (Raw (JNum k)) False ex =
        Inr (ex\<lparr>state := JUndefined, trace := trace ex @ [StateChanged JUndefined]\<rparr>)"
    by (simp add: setState_number)
next
  assume "name \<notin> fst ` set states"
  then have "find (\<lambda>entry. fst entry = name) states = None"
    by (force simp: find_None_iff)
  then show "setState (Named name) force ex = Inl TypeError"
    by (simp add: setState_def resolve_name_def)
qed

theorem setState_rejected_request_witness:
  "setState (Raw (JNum 1)) False (built (Instance quiz)) =
     Inr ((built (Instance quiz))\<lparr>state := JUndefined,
            trace := [StateChanged (JNum 0), NewRunnable, StateChanged JUndefined]\<rparr>) \<and>
   setState (Named ''bogus'') False (built (Instance quiz)) = Inl TypeError"
proof -
  have n: "''bogus'' \<notin> fst ` set states"
    by (simp add: states_def)
  show ?thesis
    using setState_rejected_request [of 1 "built (Instance quiz)" "''bogus''" False] n
    by (simp add: built_instance new_exercise_def)
qed

text \<open>
  C5: what the code does with \<open>force\<close>. The new state is \<open>states[state]\<close>, the table indexed
  by the number, which is \<open>undefined\<close>: whatever the code and the stored state, the forced
  call stores \<open>undefined\<close>, not the requested code, and invokes \<open>onStateChanged\<close> with
  \<open>undefined\<close>.
\<close>

theorem setState_forced:
  "setState (Raw (JNum k)) True ex =
     Inr (ex\<lparr>state := JUndefined, trace := trace ex @ [StateChanged JUndefined]\<rparr>)"
proof -
  have "\<not> truthy (state ex) \<or> state ex \<noteq> JUndefined"
    by (cases "state ex") simp_all
  then show ?thesis
    by (simp add: setState_number newState_of_forced)
qed

theorem setState_forced_witness:
  "setState (Raw (JNum 4)) True (built (Instance quiz)) =
     Inr ((built (Instance quiz))\<lparr>state := JUndefined,
            trace := [StateChanged (JNum 0), NewRunnable, StateChanged JUndefined]\<rparr>)"
  using setState_forced [of 4 "built (Instance quiz)"]
  by (simp add: built_instance new_exercise_def)

section \<open>A stage without an instance\<close>

text \<open>
  C6: what the code does when there is no instance. The score and the max score are 0,
  no answer is given, \<open>showSolutions\<close> only sets its flag and \<open>reset\<close> calls no
  \<open>resetTask\<close>; but \<open>getXAPIData\<close> raises a \<open>TypeError\<close>, and so does \<open>attachInstance\<close>
  (which cannot have run before, so the stage is not attached).
\<close>

theorem absent_instance_operations:
  assumes "\<not> has_instance (inst ex)"
  shows "getScore ex = JNum 0 \<and> getMaxScore ex = JNum 0 \<and> getAnswerGiven ex = JBool False \<and>
         showSolutions ex = ex\<lparr>isShowingSolutions := True\<rparr> \<and>
         (\<exists>ex1. reset ex = Inr ex1 \<and>
            (trace ex1 = trace ex @ [IdleCallbackRequested] \<or>
             trace ex1 = trace ex @ [StateChanged (JNum 0), IdleCallbackRequested])) \<and>
         getXAPIData ex = Inl TypeError \<and>
         (\<not> isAttached ex \<longrightarrow> attachInstance ex = Inl TypeError)"
  using assms
  by (cases "inst ex")
    (auto simp: getScore_def getMaxScore_def getAnswerGiven_def showSolutions_def reset_def
      getXAPIData_def attachInstance_def setState_number newState_of_unforced Let_def)

theorem absent_instance_operations_witness:
  "getScore (built NoInstance) = JNum 0 \<and> getMaxScore (built NoInstance) = JNum 0 \<and>
   getAnswerGiven (built NoInstance) = JBool False \<and>
   getXAPIData (built NoInstance) = Inl TypeError \<and>
   attachInstance (built NoInstance) = Inl TypeError"
proof -
  have a: "\<not> has_instance (inst (built NoInstance))"
    by (simp add: built_no_instance new_exercise_def)
  have b: "\<not> isAttached (built NoInstance)"
    by (simp add: built_no_instance new_exercise_def)
  show ?thesis
    using absent_instance_operations [OF a] b by simp
qed

text \<open>
  C7: what the code does when the factory yields \<open>undefined\<close>. The constructor asks the
  factory once and is left without an instance; a second \<open>initializeInstance\<close> passes the
  guard (the instance is neither \<open>null\<close> nor truthy) and asks the factory again. (After a
  call that has produced an instance, a further call does nothing:
  \<open>initializeInstance_once_instantiated\<close>.)
\<close>

theorem initializeInstance_retries:
  "\<exists>ex. constructor (\<lambda>c. NoInstance) ct chrome = Inr ex \<and> inst ex = NoInstance \<and>
     trace ex = [StateChanged (JNum 0), NewRunnable] \<and>
     trace (initializeInstance (\<lambda>c. NoInstance) ex) =
       [StateChanged (JNum 0), NewRunnable, NewRunnable]"
  by (simp add: constructor_result initializeInstance_unset new_exercise_def)

theorem initializeInstance_retries_witness:
  "inst (built NoInstance) = NoInstance \<and>
   trace (initializeInstance (\<lambda>c. NoInstance) (built NoInstance)) =
     [StateChanged (JNum 0), NewRunnable, NewRunnable]"
  using initializeInstance_retries [of None False]
  by (auto simp: built_def)

section \<open>Event bubbling\<close>

text \<open>
  C8. On a stage wired as \<open>initializeInstance\<close> wires it (one upward relay on the instance,
  one downward relay on the main instance, under the bubbled name), an event raised by the
  embedded instance returns, attached or not: the main instance is triggered exactly once,
  with the flag set at that moment; the instance is not triggered again; and the flag is
  cleared when the relay has returned.
\<close>

theorem upward_relay_once:
  assumes "listeners_for ExerciseInstance eventName ex = [UpRelay eventName]"
    and "listeners_for MainInstance eventName ex = [DownRelay eventName]"
  shows "trigger (Suc fuel) ExerciseInstance eventName event ex =
     Some (Inr (ex\<lparr>bubblingUpwards := False,
                  trace := trace ex @
                    [Triggered ExerciseInstance eventName (bubblingUpwards ex),
                     Triggered MainInstance eventName True]\<rparr>))"
proof -
  let ?raised = "fire ExerciseInstance eventName ex"
  let ?relayed = "fire MainInstance eventName (?raised\<lparr>bubblingUpwards := True\<rparr>)"
  have down: "listeners_for MainInstance eventName (?raised\<lparr>bubblingUpwards := True\<rparr>) =
          [DownRelay eventName]"
    using assms(2) by simp
  have "bubblingUpwards ?relayed"
    by (simp add: fire_def)
  then have "dispatch fuel [DownRelay eventName] event ?relayed = Some (Inr ?relayed)"
    by (rule down_relay_blocked)
  with down have "dispatch (Suc fuel) [UpRelay eventName] event ?raised =
          Some (Inr (?relayed\<lparr>bubblingUpwards := False\<rparr>))"
    by (simp del: listeners_for_flag listeners_for_fire)
  then show ?thesis
    using assms(1) by (simp add: trigger_def fire_def)
qed

theorem upward_relay_once_witness:
  "trigger 1 ExerciseInstance ''resize'' None attached_quiz =
     Some (Inr (attached_quiz\<lparr>bubblingUpwards := False,
       trace := [StateChanged (JNum 0), NewRunnable, Attached,
                 Triggered ExerciseInstance ''resize'' False,
                 Triggered MainInstance ''resize'' True]\<rparr>))"
  using upward_relay_once [OF quiz_stage_wired(3) quiz_stage_wired(4), of 0 None]
  by (simp add: quiz_stage_fields)

text \<open>
  C9. On a stage wired as \<open>initializeInstance\<close> wires it, an event raised by the main
  instance while the flag is not set returns; while the stage is not attached, the embedded
  instance is not triggered; once it is attached, the instance is triggered exactly once,
  under the same name (and its upward relay, with the flag set, is not relayed down again).
\<close>

theorem downward_relay_when_attached:
  assumes "listeners_for ExerciseInstance eventName ex = [UpRelay eventName]"
    and "listeners_for MainInstance eventName ex = [DownRelay eventName]"
    and "\<not> bubblingUpwards ex"
  shows "trigger (Suc (Suc fuel)) MainInstance eventName event ex =
     Some (Inr (ex\<lparr>trace := trace ex @
                    (if isAttached ex
                     then [Triggered MainInstance eventName False,
                           Triggered ExerciseInstance eventName False,
                           Triggered MainInstance eventName True]
                     else [Triggered MainInstance eventName False])\<rparr>))"
proof -
  have unset: "ex\<lparr>bubblingUpwards := False\<rparr> = ex"
    using assms(3) by simp
  have "trigger (Suc (Suc fuel)) MainInstance eventName event ex =
     Some (Inr (ex\<lparr>bubblingUpwards := False\<rparr>\<lparr>trace := trace ex @
                    (if isAttached ex
                     then [Triggered MainInstance eventName False,
                           Triggered ExerciseInstance eventName False,
                           Triggered MainInstance eventName True]
                     else [Triggered MainInstance eventName False])\<rparr>))"
    using assms by (simp add: trigger_def fire_def)
  then show ?thesis
    by (simp only: unset)
qed

theorem downward_relay_when_attached_witness:
  "trigger 2 MainInstance ''resize'' None (built (Instance quiz)) =
     Some (Inr ((built (Instance quiz))\<lparr>trace :=
       [StateChanged (JNum 0), NewRunnable, Triggered MainInstance ''resize'' False]\<rparr>)) \<and>
   trigger 2 MainInstance ''resize'' None attached_quiz =
     Some (Inr (attached_quiz\<lparr>trace :=
       [StateChanged (JNum 0), NewRunnable, Attached,
        Triggered MainInstance ''resize'' False,
        Triggered ExerciseInstance ''resize'' False,
        Triggered MainInstance ''resize'' True]\<rparr>))"
  using
    downward_relay_when_attached
      [OF quiz_stage_wired(1) quiz_stage_wired(2) quiz_stage_fields(1), of 0 None]
    downward_relay_when_attached
      [OF quiz_stage_wired(3) quiz_stage_wired(4) quiz_stage_fields(3), of 0 None]
  by (simp add: quiz_stage_fields numeral_2_eq_2)

section \<open>Construction\<close>

text \<open>
  C10. Whatever the descriptor and the factory, the constructor returns, the stored state
  is \<open>unstarted\<close> (0), and the effects up to its return are one \<open>onStateChanged(0)\<close>,
  issued by \<open>setState\<close>, followed by the request to the factory: the callback is invoked
  exactly once.
\<close>

theorem constructor_notifies_unstarted:
  "\<exists>ex. constructor newRunnable ct chrome = Inr ex \<and> state ex = JNum 0 \<and>
     trace ex = [StateChanged (JNum 0), NewRunnable] \<and>
     setState (Raw (states_at ''unstarted'')) False (new_exercise ct chrome) =
       Inr ((new_exercise ct chrome)\<lparr>state := JNum 0, trace := [StateChanged (JNum 0)]\<rparr>)"
  by (simp add: constructor_result initializeInstance_unset new_exercise_def Let_def
      setState_number newState_of_unforced)

theorem constructor_notifies_unstarted_witness:
  "state (built (Instance quiz)) = JNum 0 \<and>
   trace (built (Instance quiz)) = [StateChanged (JNum 0), NewRunnable]"
  using constructor_notifies_unstarted [of "\<lambda>c. Instance quiz" None False]
  by (auto simp: built_def)

end
